theory Spec2Isabelle
  imports Complex_Main
begin

section \<open>The transport layer: \<^verbatim>\<open>app.py\<close>\<close>

subsection \<open>Python values decoded from a JSON request body\<close>

text \<open>
  \<^verbatim>\<open>request.json\<close> yields the Python value decoded from the body: \<^verbatim>\<open>None\<close>, a bool, an
  int, a float, a str, a list or a dict. Python's decoder also accepts the literals
  \<^verbatim>\<open>NaN\<close>, \<^verbatim>\<open>Infinity\<close> and \<^verbatim>\<open>-Infinity\<close>. A dict is kept as the list of its items.
\<close>

datatype nonfinite = NaN | PosInfinity | NegInfinity

datatype json =
    JNull
  | JBool bool
  | JInt int
  | JFloat real
  | JNonFinite nonfinite
  | JStr string
  | JList "json list"
  | JObj "(string \<times> json) list"

text \<open>Python truthiness, as \<^verbatim>\<open>if not text\<close> and \<^verbatim>\<open>if success\<close> test it.\<close>

fun truthy :: "json \<Rightarrow> bool" where
  "truthy JNull = False"
| "truthy (JBool b) = b"
| "truthy (JInt i) = (i \<noteq> 0)"
| "truthy (JFloat r) = (r \<noteq> 0)"
| "truthy (JNonFinite _) = True"
| "truthy (JStr s) = (s \<noteq> [])"
| "truthy (JList xs) = (xs \<noteq> [])"
| "truthy (JObj kvs) = (kvs \<noteq> [])"

fun type_name :: "json \<Rightarrow> string" where
  "type_name JNull = ''NoneType''"
| "type_name (JBool _) = ''bool''"
| "type_name (JInt _) = ''int''"
| "type_name (JFloat _) = ''float''"
| "type_name (JNonFinite _) = ''float''"
| "type_name (JStr _) = ''str''"
| "type_name (JList _) = ''list''"
| "type_name (JObj _) = ''dict''"

text \<open>
  A raised exception is carried as \<open>Inl\<close> of its \<^verbatim>\<open>str(e)\<close>. \<^verbatim>\<open>data.get(key)\<close> and
  \<^verbatim>\<open>data.get(key, default)\<close> exist on a dict only; on any other value the attribute
  lookup raises \<^verbatim>\<open>AttributeError\<close>.
\<close>

definition no_attribute_get :: "json \<Rightarrow> string" where
  "no_attribute_get v = [CHR 0x27] @ type_name v @ [CHR 0x27] @ '' object has no attribute '' @ [CHR 0x27] @ ''get'' @ [CHR 0x27]"

fun get_default :: "json \<Rightarrow> string \<Rightarrow> json \<Rightarrow> string + json" where
  "get_default (JObj kvs) k d = Inr (case map_of kvs k of None \<Rightarrow> d | Some v \<Rightarrow> v)"
| "get_default v k d = Inl (no_attribute_get v)"

definition get :: "json \<Rightarrow> string \<Rightarrow> string + json" where
  "get data k = get_default data k JNull"

subsection \<open>Responses\<close>

text \<open>
  A view returns \<^verbatim>\<open>jsonify(dict)\<close> with a status code (200 when none is given), the
  rendered page, or the archive sent as an attachment (file name and content).
\<close>

datatype payload = Json json | Page string | Attachment string string

type_synonym response = "payload \<times> nat"

definition failure :: "json \<Rightarrow> nat \<Rightarrow> response" where
  "failure e code = (Json (JObj [(''success'', JBool False), (''error'', e)]), code)"

definition succeeded :: "(string \<times> json) list \<Rightarrow> response" where
  "succeeded extra = (Json (JObj ((''success'', JBool True) # extra)), 200)"

subsection \<open>The automation components and the process state\<close>

text \<open>
  \<^verbatim>\<open>ScreenReader\<close>, \<^verbatim>\<open>InputController\<close>, \<^verbatim>\<open>AppManager\<close> and \<^verbatim>\<open>TaskInterpreter\<close> are imported
  from the \<^verbatim>\<open>automation\<close> package. The views only call them, so their behaviour is a
  parameter: each method acts on the state \<open>'w\<close> of the controlled machine and either
  raises (\<open>Inl\<close>) or returns.
\<close>

record 'w components =
  screen_reader_capture_screen_b64 :: "'w \<Rightarrow> (string + json) \<times> 'w"
  screen_reader_extract_text :: "'w \<Rightarrow> (string + json) \<times> 'w"
  input_controller_move_mouse :: "json \<Rightarrow> json \<Rightarrow> 'w \<Rightarrow> (string + unit) \<times> 'w"
  input_controller_click :: "(json \<times> json) option \<Rightarrow> json \<Rightarrow> 'w \<Rightarrow> (string + unit) \<times> 'w"
  input_controller_type_text :: "json \<Rightarrow> 'w \<Rightarrow> (string + unit) \<times> 'w"
  input_controller_press_hotkey :: "json list \<Rightarrow> 'w \<Rightarrow> (string + unit) \<times> 'w"
  app_manager_open_app :: "json \<Rightarrow> 'w \<Rightarrow> (string + json \<times> json) \<times> 'w"
  task_interpreter_execute_task :: "json \<Rightarrow> 'w \<Rightarrow> (string + json \<times> json) \<times> 'w"

text \<open>
  The method calls a view makes, in the form it makes them: \<open>ClickAt x y button\<close> is
  \<^verbatim>\<open>input_controller.click(x, y, button)\<close>, \<open>ClickButton button\<close> is
  \<^verbatim>\<open>input_controller.click(button=button)\<close>. The process state records them in order.
\<close>

datatype call =
    CaptureScreenB64
  | ExtractText
  | MoveMouseTo json json
  | ClickAt json json json
  | ClickButton json
  | TypeTextOf json
  | PressHotkey "json list"
  | OpenAppNamed json
  | ExecuteTaskOf json

record 'w server =
  SIMULATION_MODE :: bool
  world :: 'w
  calls :: "call list"

definition invoke :: "call \<Rightarrow> ('w \<Rightarrow> (string + 'a) \<times> 'w) \<Rightarrow> 'w server \<Rightarrow> (string + 'a) \<times> 'w server" where
  "invoke c f s = (case f (world s) of (r, w') \<Rightarrow> (r, s\<lparr>world := w', calls := calls s @ [c]\<rparr>))"

subsection \<open>Start-up: the simulation flag\<close>

text \<open>
  The probe is \<^verbatim>\<open>import pyautogui; pyautogui.size()\<close> inside \<^verbatim>\<open>try\<close>: it gives the screen
  size or raises. \<^verbatim>\<open>str.lower\<close> is modelled on ASCII letters.
\<close>

datatype probe = ScreenSize int int | ProbeRaised string

definition lower_char :: "char \<Rightarrow> char" where
  "lower_char c = (case map_of (zip ''ABCDEFGHIJKLMNOPQRSTUVWXYZ'' ''abcdefghijklmnopqrstuvwxyz'') c of
                     None \<Rightarrow> c | Some d \<Rightarrow> d)"

definition lower :: "string \<Rightarrow> string" where
  "lower s = map lower_char s"

definition environ_get :: "(string \<rightharpoonup> string) \<Rightarrow> string \<Rightarrow> string \<Rightarrow> string" where
  "environ_get env k d = (case env k of None \<Rightarrow> d | Some v \<Rightarrow> v)"

definition resolve_simulation_mode :: "probe \<Rightarrow> (string \<rightharpoonup> string) \<Rightarrow> bool" where
  "resolve_simulation_mode p env =
     (let probed = (case p of ScreenSize w h \<Rightarrow> False | ProbeRaised e \<Rightarrow> True)
      in if lower (environ_get env ''FORCE_SIMULATION_MODE'' '''') = ''true'' then True else probed)"

definition startup :: "probe \<Rightarrow> (string \<rightharpoonup> string) \<Rightarrow> 'w \<Rightarrow> 'w server" where
  "startup p env w = \<lparr>SIMULATION_MODE = resolve_simulation_mode p env, world = w, calls = []\<rparr>"

subsection \<open>The views\<close>

text \<open>
  Every view runs inside \<^verbatim>\<open>try: ... except Exception as e\<close>, which answers status 500
  with \<^verbatim>\<open>str(e)\<close>. The body argument is what \<^verbatim>\<open>request.json\<close> gives: the decoded value,
  or the exception the framework raises for a body that is not JSON. The log lines
  written by \<^verbatim>\<open>logger\<close> are not part of the model.
\<close>

definition caught :: "string \<Rightarrow> response" where
  "caught e = failure (JStr e) 500"

definition capture_screen :: "'w components \<Rightarrow> 'w server \<Rightarrow> response \<times> 'w server" where
  "capture_screen C s =
     (case invoke CaptureScreenB64 (screen_reader_capture_screen_b64 C) s of
        (Inl e, s') \<Rightarrow> (caught e, s')
      | (Inr img, s') \<Rightarrow> (succeeded [(''image'', img)], s'))"

definition read_screen_text :: "'w components \<Rightarrow> 'w server \<Rightarrow> response \<times> 'w server" where
  "read_screen_text C s =
     (case invoke ExtractText (screen_reader_extract_text C) s of
        (Inl e, s') \<Rightarrow> (caught e, s')
      | (Inr txt, s') \<Rightarrow> (succeeded [(''text'', txt)], s'))"

definition move_mouse :: "'w components \<Rightarrow> string + json \<Rightarrow> 'w server \<Rightarrow> response \<times> 'w server" where
  "move_mouse C body s =
     (case body of Inl e \<Rightarrow> (caught e, s) | Inr data \<Rightarrow>
      (case get data ''x'' of Inl e \<Rightarrow> (caught e, s) | Inr x \<Rightarrow>
      (case get data ''y'' of Inl e \<Rightarrow> (caught e, s) | Inr y \<Rightarrow>
        if x = JNull \<or> y = JNull then (failure (JStr ''Missing x or y coordinates'') 400, s)
        else (case invoke (MoveMouseTo x y) (input_controller_move_mouse C x y) s of
                (Inl e, s') \<Rightarrow> (caught e, s')
              | (Inr _, s') \<Rightarrow> (succeeded [], s')))))"

definition click_mouse :: "'w components \<Rightarrow> string + json \<Rightarrow> 'w server \<Rightarrow> response \<times> 'w server" where
  "click_mouse C body s =
     (case body of Inl e \<Rightarrow> (caught e, s) | Inr data \<Rightarrow>
      (case get data ''x'' of Inl e \<Rightarrow> (caught e, s) | Inr x \<Rightarrow>
      (case get data ''y'' of Inl e \<Rightarrow> (caught e, s) | Inr y \<Rightarrow>
      (case get_default data ''button'' (JStr ''left'') of Inl e \<Rightarrow> (caught e, s) | Inr button \<Rightarrow>
        (case (if x \<noteq> JNull \<and> y \<noteq> JNull
               then invoke (ClickAt x y button) (input_controller_click C (Some (x, y)) button) s
               else invoke (ClickButton button) (input_controller_click C None button) s) of
           (Inl e, s') \<Rightarrow> (caught e, s')
         | (Inr _, s') \<Rightarrow> (succeeded [], s'))))))"

definition type_text :: "'w components \<Rightarrow> string + json \<Rightarrow> 'w server \<Rightarrow> response \<times> 'w server" where
  "type_text C body s =
     (case body of Inl e \<Rightarrow> (caught e, s) | Inr data \<Rightarrow>
      (case get data ''text'' of Inl e \<Rightarrow> (caught e, s) | Inr text \<Rightarrow>
        if \<not> truthy text then (failure (JStr ''Missing text'') 400, s)
        else (case invoke (TypeTextOf text) (input_controller_type_text C text) s of
                (Inl e, s') \<Rightarrow> (caught e, s')
              | (Inr _, s') \<Rightarrow> (succeeded [], s'))))"

definition press_hotkey :: "'w components \<Rightarrow> string + json \<Rightarrow> 'w server \<Rightarrow> response \<times> 'w server" where
  "press_hotkey C body s =
     (case body of Inl e \<Rightarrow> (caught e, s) | Inr data \<Rightarrow>
      (case get data ''keys'' of Inl e \<Rightarrow> (caught e, s) | Inr keys \<Rightarrow>
        (case keys of
           JList ks \<Rightarrow>
             if ks = [] then (failure (JStr ''Invalid or missing keys'') 400, s)
             else (case invoke (PressHotkey ks) (input_controller_press_hotkey C ks) s of
                     (Inl e, s') \<Rightarrow> (caught e, s')
                   | (Inr _, s') \<Rightarrow> (succeeded [], s'))
         | _ \<Rightarrow> (failure (JStr ''Invalid or missing keys'') 400, s))))"

text \<open>
  What the views take from the framework and the file system: the rendered
  \<^verbatim>\<open>index.html\<close> (or the exception \<^verbatim>\<open>render_template\<close> raises), the archive built for a
  platform (or the exception raised while building it), and \<^verbatim>\<open>str\<close> of a value that is
  not a str, which the f-string \<^verbatim>\<open>f"Application '{app_name}' opened successfully"\<close>
  applies to the name.
\<close>

record externals =
  render_index :: "string + string"
  build_archive :: "string \<Rightarrow> string + string"
  str_of :: "json \<Rightarrow> string"

definition opened_message :: "externals \<Rightarrow> json \<Rightarrow> string" where
  "opened_message X app_name =
     ''Application '' @ [CHR 0x27] @ (case app_name of JStr n \<Rightarrow> n | v \<Rightarrow> str_of X v) @ [CHR 0x27] @ '' opened successfully''"

definition open_application ::
  "'w components \<Rightarrow> externals \<Rightarrow> string + json \<Rightarrow> 'w server \<Rightarrow> response \<times> 'w server" where
  "open_application C X body s =
     (case body of Inl e \<Rightarrow> (caught e, s) | Inr data \<Rightarrow>
      (case get data ''app_name'' of Inl e \<Rightarrow> (caught e, s) | Inr app_name \<Rightarrow>
        if \<not> truthy app_name then (failure (JStr ''Missing application name'') 400, s)
        else (case invoke (OpenAppNamed app_name) (app_manager_open_app C app_name) s of
                (Inl e, s') \<Rightarrow> (caught e, s')
              | (Inr (success, result), s') \<Rightarrow>
                  if truthy success
                  then (succeeded [(''message'', JStr (opened_message X app_name))], s')
                  else (failure result 500, s'))))"

definition execute_task :: "'w components \<Rightarrow> string + json \<Rightarrow> 'w server \<Rightarrow> response \<times> 'w server" where
  "execute_task C body s =
     (case body of Inl e \<Rightarrow> (caught e, s) | Inr data \<Rightarrow>
      (case get data ''task'' of Inl e \<Rightarrow> (caught e, s) | Inr task_description \<Rightarrow>
        if \<not> truthy task_description then (failure (JStr ''Missing task description'') 400, s)
        else (case invoke (ExecuteTaskOf task_description) (task_interpreter_execute_task C task_description) s of
                (Inl e, s') \<Rightarrow> (caught e, s')
              | (Inr (success, result), s') \<Rightarrow>
                  if truthy success
                  then (succeeded [(''message'', result)], s')
                  else (failure result 500, s'))))"

text \<open>
  \<^verbatim>\<open>index\<close> has no \<^verbatim>\<open>try\<close>: an exception of \<^verbatim>\<open>render_template\<close> leaves the view (\<open>Inl\<close>).
  \<^verbatim>\<open>download_executable\<close> checks the platform, then builds the archive inside \<^verbatim>\<open>try\<close>.
\<close>

definition index :: "externals \<Rightarrow> string + response" where
  "index X = (case render_index X of Inl e \<Rightarrow> Inl e | Inr page \<Rightarrow> Inr (Page page, 200))"

definition download_executable :: "externals \<Rightarrow> string \<Rightarrow> response" where
  "download_executable X platform =
     (if platform \<notin> set [''windows'', ''macos'', ''linux'']
      then failure (JStr (''Invalid platform: '' @ platform)) 400
      else (case build_archive X platform of
              Inl e \<Rightarrow> caught e
            | Inr content \<Rightarrow>
                (Attachment (if platform = ''windows'' then ''PC_Automation_System_Windows.zip''
                             else if platform = ''macos'' then ''PC_Automation_System_macOS.zip''
                             else ''PC_Automation_System_Linux.zip'') content, 200)))"

subsection \<open>The process: start-up, then one request after another\<close>

datatype request =
    GetIndex
  | GetScreenCapture
  | GetScreenText
  | PostMouseMove "string + json"
  | PostMouseClick "string + json"
  | PostKeyboardType "string + json"
  | PostKeyboardHotkey "string + json"
  | PostAppOpen "string + json"
  | PostTaskExecute "string + json"
  | GetDownload string

fun handle :: "'w components \<Rightarrow> externals \<Rightarrow> request \<Rightarrow> 'w server \<Rightarrow> (string + response) \<times> 'w server" where
  "handle C X GetIndex s = (index X, s)"
| "handle C X GetScreenCapture s = (case capture_screen C s of (r, s') \<Rightarrow> (Inr r, s'))"
| "handle C X GetScreenText s = (case read_screen_text C s of (r, s') \<Rightarrow> (Inr r, s'))"
| "handle C X (PostMouseMove b) s = (case move_mouse C b s of (r, s') \<Rightarrow> (Inr r, s'))"
| "handle C X (PostMouseClick b) s = (case click_mouse C b s of (r, s') \<Rightarrow> (Inr r, s'))"
| "handle C X (PostKeyboardType b) s = (case type_text C b s of (r, s') \<Rightarrow> (Inr r, s'))"
| "handle C X (PostKeyboardHotkey b) s = (case press_hotkey C b s of (r, s') \<Rightarrow> (Inr r, s'))"
| "handle C X (PostAppOpen b) s = (case open_application C X b s of (r, s') \<Rightarrow> (Inr r, s'))"
| "handle C X (PostTaskExecute b) s = (case execute_task C b s of (r, s') \<Rightarrow> (Inr r, s'))"
| "handle C X (GetDownload platform) s = (Inr (download_executable X platform), s)"

fun serve :: "'w components \<Rightarrow> externals \<Rightarrow> request list \<Rightarrow> 'w server \<Rightarrow> (string + response) list \<times> 'w server" where
  "serve C X [] s = ([], s)"
| "serve C X (r # rs) s =
     (case handle C X r s of (a, s') \<Rightarrow> (case serve C X rs s' of (as, s'') \<Rightarrow> (a # as, s'')))"

definition forced :: "(string \<rightharpoonup> string) \<Rightarrow> bool" where
  "forced env = (lower (environ_get env ''FORCE_SIMULATION_MODE'' '''') = ''true'')"

fun probe_raised :: "probe \<Rightarrow> bool" where
  "probe_raised (ScreenSize w h) = False"
| "probe_raised (ProbeRaised e) = True"

text \<open>The value \<^verbatim>\<open>dict.get(k, d)\<close> gives on the items \<open>kvs\<close>.\<close>

definition entry :: "(string \<times> json) list \<Rightarrow> string \<Rightarrow> json \<Rightarrow> json" where
  "entry kvs k d = (case map_of kvs k of None \<Rightarrow> d | Some v \<Rightarrow> v)"

text \<open>A machine on which every component call returns normally, used in the concrete instances.\<close>

definition idle_components :: "unit components" where
  "idle_components =
     \<lparr>screen_reader_capture_screen_b64 = (\<lambda>w. (Inr (JStr ''''), w)),
      screen_reader_extract_text = (\<lambda>w. (Inr (JStr ''''), w)),
      input_controller_move_mouse = (\<lambda>x y w. (Inr (), w)),
      input_controller_click = (\<lambda>xy b w. (Inr (), w)),
      input_controller_type_text = (\<lambda>t w. (Inr (), w)),
      input_controller_press_hotkey = (\<lambda>ks w. (Inr (), w)),
      app_manager_open_app = (\<lambda>n w. (Inr (JBool True, JStr ''''), w)),
      task_interpreter_execute_task = (\<lambda>t w. (Inr (JBool True, JStr ''done''), w))\<rparr>"

text \<open>
  A machine whose state is the list of the clicks made on it: \<^verbatim>\<open>click\<close> appends its
  arguments, the coordinates (when given) and the button.
\<close>

definition clicked_components :: "((json \<times> json) option \<times> json) list components" where
  "clicked_components =
     \<lparr>screen_reader_capture_screen_b64 = (\<lambda>w. (Inr (JStr ''''), w)),
      screen_reader_extract_text = (\<lambda>w. (Inr (JStr ''''), w)),
      input_controller_move_mouse = (\<lambda>x y w. (Inr (), w)),
      input_controller_click = (\<lambda>xy b w. (Inr (), w @ [(xy, b)])),
      input_controller_type_text = (\<lambda>t w. (Inr (), w)),
      input_controller_press_hotkey = (\<lambda>ks w. (Inr (), w)),
      app_manager_open_app = (\<lambda>n w. (Inr (JBool True, JStr ''''), w)),
      task_interpreter_execute_task = (\<lambda>t w. (Inr (JBool True, JStr ''done''), w))\<rparr>"


definition plain_externals :: externals where
  "plain_externals = \<lparr>render_index = Inr ''<html></html>'', build_archive = (\<lambda>p. Inr ''''), str_of = (\<lambda>v. '''')\<rparr>"

section \<open>The task engine, modelled from the specification\<close>

text \<open>
  \<^verbatim>\<open>app.py\<close> imports \<^verbatim>\<open>TaskInterpreter\<close>, \<^verbatim>\<open>AppManager\<close>, \<^verbatim>\<open>InputController\<close> and
  \<^verbatim>\<open>ScreenReader\<close> from the package \<^verbatim>\<open>automation\<close>, whose files are not among the sources.
  The definitions of this section follow the specification's text for them (its sections
  3, 4, 6 and 7); each says so, and names the part it stands for.
\<close>

subsection \<open>Data model\<close>

datatype Mode = Live | Simulated

datatype ActionStep =
    MoveMouse int int
  | Click "int option" "int option" string
  | TypeText string
  | Hotkey "string list"
  | OpenApp string
  | CaptureScreen
  | ReadScreenText
  | Wait nat

datatype captured = CapturedImage nat nat | CapturedText string

record StepOutcome =
  step_success :: bool
  captured_data :: "captured option"
  error_detail :: "string option"

record ExecutionResult =
  success :: bool
  message :: string
  outcomes :: "StepOutcome list"

subsection \<open>Device Control Interfaces\<close>

text \<open>
  Modelled from the spec: the three Device Control Interfaces (Screen Reader, Input
  Controller, App Manager; the absent \<^verbatim>\<open>automation\<close> classes). The spec fixes what each
  method returns in Simulated mode and which failure it may report in Live mode; what a
  Live call does on the machine is a parameter, a function on the machine state \<open>'w\<close>.
  So is \<open>live_validate\<close>, the static check of a step's parameters: the spec names the
  failure and gives no rule for it.
\<close>

datatype failure_kind =
    StepValidationError string
  | CaptureUnavailable
  | InjectionUnavailable
  | ApplicationNotFound string

record 'w machine =
  live_validate :: "ActionStep \<Rightarrow> string option"
  live_capture :: "'w \<Rightarrow> (failure_kind + nat \<times> nat) \<times> 'w"
  live_extractText :: "'w \<Rightarrow> (failure_kind + string) \<times> 'w"
  live_move :: "int \<Rightarrow> int \<Rightarrow> 'w \<Rightarrow> (failure_kind + unit) \<times> 'w"
  live_click :: "int option \<Rightarrow> int option \<Rightarrow> string \<Rightarrow> 'w \<Rightarrow> (failure_kind + unit) \<times> 'w"
  live_type :: "string \<Rightarrow> 'w \<Rightarrow> (failure_kind + unit) \<times> 'w"
  live_pressCombination :: "string list \<Rightarrow> 'w \<Rightarrow> (failure_kind + unit) \<times> 'w"
  live_open :: "string \<Rightarrow> 'w \<Rightarrow> (bool \<times> string) \<times> 'w"

text \<open>
  Modelled from the spec: the Screen Reader. In Simulated mode \<open>capture\<close> gives the 1 by 1
  placeholder image and \<open>extractText\<close> the empty text, without touching the machine.
\<close>

definition capture :: "'w machine \<Rightarrow> Mode \<Rightarrow> 'w \<Rightarrow> (failure_kind + nat \<times> nat) \<times> 'w" where
  "capture M mode w = (case mode of Simulated \<Rightarrow> (Inr (1, 1), w) | Live \<Rightarrow> live_capture M w)"

definition extractText :: "'w machine \<Rightarrow> Mode \<Rightarrow> 'w \<Rightarrow> (failure_kind + string) \<times> 'w" where
  "extractText M mode w = (case mode of Simulated \<Rightarrow> (Inr '''', w) | Live \<Rightarrow> live_extractText M w)"

text \<open>Modelled from the spec: the Input Controller; every Simulated call succeeds.\<close>

definition move :: "'w machine \<Rightarrow> Mode \<Rightarrow> int \<Rightarrow> int \<Rightarrow> 'w \<Rightarrow> (failure_kind + unit) \<times> 'w" where
  "move M mode x y w = (case mode of Simulated \<Rightarrow> (Inr (), w) | Live \<Rightarrow> live_move M x y w)"

definition click :: "'w machine \<Rightarrow> Mode \<Rightarrow> int option \<Rightarrow> int option \<Rightarrow> string \<Rightarrow> 'w \<Rightarrow> (failure_kind + unit) \<times> 'w" where
  "click M mode x y button w = (case mode of Simulated \<Rightarrow> (Inr (), w) | Live \<Rightarrow> live_click M x y button w)"

definition type_input :: "'w machine \<Rightarrow> Mode \<Rightarrow> string \<Rightarrow> 'w \<Rightarrow> (failure_kind + unit) \<times> 'w" where
  "type_input M mode txt w = (case mode of Simulated \<Rightarrow> (Inr (), w) | Live \<Rightarrow> live_type M txt w)"

definition pressCombination :: "'w machine \<Rightarrow> Mode \<Rightarrow> string list \<Rightarrow> 'w \<Rightarrow> (failure_kind + unit) \<times> 'w" where
  "pressCombination M mode keys w =
     (case mode of Simulated \<Rightarrow> (Inr (), w) | Live \<Rightarrow> live_pressCombination M keys w)"

text \<open>
  Modelled from the spec: the App Manager's \<open>open(name) -> (bool, detailMessage)\<close>. It
  returns a pair in both modes; Simulated mode reports success for any name.
\<close>

definition open_app :: "'w machine \<Rightarrow> Mode \<Rightarrow> string \<Rightarrow> 'w \<Rightarrow> (bool \<times> string) \<times> 'w" where
  "open_app M mode name w =
     (case mode of Simulated \<Rightarrow> ((True, ''simulated: opened '' @ name), w) | Live \<Rightarrow> live_open M name w)"

subsection \<open>Plan Executor\<close>

definition describe :: "failure_kind \<Rightarrow> string" where
  "describe f = (case f of
      StepValidationError r \<Rightarrow> ''StepValidationError: '' @ r
    | CaptureUnavailable \<Rightarrow> ''CaptureUnavailable''
    | InjectionUnavailable \<Rightarrow> ''InjectionUnavailable''
    | ApplicationNotFound r \<Rightarrow> ''ApplicationNotFound: '' @ r)"

definition completed :: "captured option \<Rightarrow> StepOutcome" where
  "completed d = \<lparr>step_success = True, captured_data = d, error_detail = None\<rparr>"

definition failed :: "failure_kind \<Rightarrow> StepOutcome" where
  "failed f = \<lparr>step_success = False, captured_data = None, error_detail = Some (describe f)\<rparr>"

text \<open>
  Modelled from the spec: static validation of a step's parameters (part of the absent
  Plan Executor). The spec names the failure, \<^verbatim>\<open>StepValidationError\<close>, with two examples
  (missing coordinates, coordinates out of range) and states neither a rule nor a range,
  so what the check rejects is the machine's \<open>live_validate\<close>. It is consulted in Live
  mode. In Simulated mode no step is rejected: the spec has every plan run to completion
  there, on machines without a display.
\<close>

definition validate :: "'w machine \<Rightarrow> Mode \<Rightarrow> ActionStep \<Rightarrow> string option" where
  "validate M mode step = (case mode of Simulated \<Rightarrow> None | Live \<Rightarrow> live_validate M step)"

text \<open>
  Modelled from the spec: the dispatch of a step to exactly one Device Control Interface
  method, and the step boundary, where a failed validation or a failure reported by the
  method becomes the step's outcome. \<open>Wait\<close> is a pure delay with no device interaction.
\<close>

definition of_unit :: "(failure_kind + unit) \<times> 'w \<Rightarrow> StepOutcome \<times> 'w" where
  "of_unit r = (case r of (Inl f, w') \<Rightarrow> (failed f, w') | (Inr _, w') \<Rightarrow> (completed None, w'))"

fun dispatch :: "'w machine \<Rightarrow> Mode \<Rightarrow> ActionStep \<Rightarrow> 'w \<Rightarrow> StepOutcome \<times> 'w" where
  "dispatch M mode (MoveMouse x y) w = of_unit (move M mode x y w)"
| "dispatch M mode (Click x y button) w = of_unit (click M mode x y button w)"
| "dispatch M mode (TypeText txt) w = of_unit (type_input M mode txt w)"
| "dispatch M mode (Hotkey keys) w = of_unit (pressCombination M mode keys w)"
| "dispatch M mode (OpenApp name) w =
     (case open_app M mode name w of
        ((True, detail), w') \<Rightarrow> (completed None, w')
      | ((False, detail), w') \<Rightarrow> (failed (ApplicationNotFound detail), w'))"
| "dispatch M mode CaptureScreen w =
     (case capture M mode w of
        (Inl f, w') \<Rightarrow> (failed f, w')
      | (Inr (width, height), w') \<Rightarrow> (completed (Some (CapturedImage width height)), w'))"
| "dispatch M mode ReadScreenText w =
     (case extractText M mode w of
        (Inl f, w') \<Rightarrow> (failed f, w')
      | (Inr txt, w') \<Rightarrow> (completed (Some (CapturedText txt)), w'))"
| "dispatch M mode (Wait ms) w = (completed None, w)"

definition exec_step :: "'w machine \<Rightarrow> Mode \<Rightarrow> ActionStep \<Rightarrow> 'w \<Rightarrow> StepOutcome \<times> 'w" where
  "exec_step M mode step w =
     (case validate M mode step of
        Some reason \<Rightarrow> (failed (StepValidationError reason), w)
      | None \<Rightarrow> dispatch M mode step w)"

text \<open>
  Modelled from the spec: \<open>run(plan, mode) -> ExecutionResult\<close>. Steps run strictly in plan
  order; the first failing step ends the run and later steps are not attempted.
\<close>

fun run_steps :: "'w machine \<Rightarrow> Mode \<Rightarrow> ActionStep list \<Rightarrow> 'w \<Rightarrow> StepOutcome list \<times> 'w" where
  "run_steps M mode [] w = ([], w)"
| "run_steps M mode (step # rest) w =
     (case exec_step M mode step w of
        (out, w') \<Rightarrow>
          if step_success out
          then (case run_steps M mode rest w' of (outs, w'') \<Rightarrow> (out # outs, w''))
          else ([out], w'))"

fun digit_char :: "nat \<Rightarrow> char" where
  "digit_char n = (''0123456789'' ! (n mod 10))"

fun show_nat :: "nat \<Rightarrow> string" where
  "show_nat n = (if n < 10 then [digit_char n] else show_nat (n div 10) @ [digit_char n])"

fun step_name :: "ActionStep \<Rightarrow> string" where
  "step_name (MoveMouse x y) = ''MoveMouse''"
| "step_name (Click x y button) = ''Click''"
| "step_name (TypeText txt) = ''TypeText''"
| "step_name (Hotkey keys) = ''Hotkey''"
| "step_name (OpenApp name) = ''OpenApp''"
| "step_name CaptureScreen = ''CaptureScreen''"
| "step_name ReadScreenText = ''ReadScreenText''"
| "step_name (Wait ms) = ''Wait''"

text \<open>
  Modelled from the spec: the summary message. After a failure it identifies the failing
  step, by its position in the plan (from 1) and its variant, and carries its error detail.
\<close>

definition summary :: "ActionStep list \<Rightarrow> StepOutcome list \<Rightarrow> string" where
  "summary plan outs =
     (if list_all step_success outs
      then ''Completed '' @ show_nat (length outs) @ '' step(s)''
      else ''Step '' @ show_nat (length outs) @ '' ('' @ step_name (plan ! (length outs - 1)) @ '') failed: ''
             @ (case error_detail (last outs) of None \<Rightarrow> '''' | Some d \<Rightarrow> d))"

definition run :: "'w machine \<Rightarrow> ActionStep list \<Rightarrow> Mode \<Rightarrow> 'w \<Rightarrow> ExecutionResult \<times> 'w" where
  "run M plan mode w =
     (case run_steps M mode plan w of
        (outs, w') \<Rightarrow>
          (\<lparr>success = list_all step_success outs, message = summary plan outs, outcomes = outs\<rparr>, w'))"

text \<open>
  The machine state in which a step of the plan is reached when the steps before it have
  run, and the outcome the step has there.
\<close>

fun world_after :: "'w machine \<Rightarrow> Mode \<Rightarrow> ActionStep list \<Rightarrow> 'w \<Rightarrow> 'w" where
  "world_after M mode [] w = w"
| "world_after M mode (step # rest) w = world_after M mode rest (snd (exec_step M mode step w))"

definition outcome_at :: "'w machine \<Rightarrow> Mode \<Rightarrow> ActionStep list \<Rightarrow> 'w \<Rightarrow> nat \<Rightarrow> StepOutcome" where
  "outcome_at M mode plan w i = fst (exec_step M mode (plan ! i) (world_after M mode (take i plan) w))"

text \<open>
  Three machines for the concrete instances: a desk on which every Live call succeeds,
  the same desk where no application can be found, and a machine with neither a display
  nor an input surface, where every Live call reports its failure and the pointer may
  only be sent within a 1920 by 1080 screen.
\<close>

definition desk :: "unit machine" where
  "desk =
     \<lparr>live_validate = (\<lambda>step. None),
      live_capture = (\<lambda>w. (Inr (1920, 1080), w)),
      live_extractText = (\<lambda>w. (Inr ''hello'', w)),
      live_move = (\<lambda>x y w. (Inr (), w)),
      live_click = (\<lambda>x y b w. (Inr (), w)),
      live_type = (\<lambda>t w. (Inr (), w)),
      live_pressCombination = (\<lambda>ks w. (Inr (), w)),
      live_open = (\<lambda>n w. ((True, ''opened '' @ n), w))\<rparr>"

definition bare_desk :: "unit machine" where
  "bare_desk = desk\<lparr>live_open := (\<lambda>n w. ((False, ''no application named '' @ n), w))\<rparr>"



subsection \<open>Task Parser\<close>

text \<open>
  Modelled from the spec: the Task Parser (in the absent \<^verbatim>\<open>task_interpreter.py\<close>). The spec
  gives a prioritized table of rules, each a recognizer (a keyword or phrase, matched
  without regard to case, over text with normalized whitespace) paired with a builder
  that extracts the parameters and emits one or more steps. A rule is its tier (a larger
  tier is more specific) and the function from the normalized text to the steps it
  builds, \<open>None\<close> when it does not match.
\<close>

datatype parse_error = UnrecognizedTask string | AmbiguousTask string

record rule =
  tier :: nat
  recognize :: "string \<Rightarrow> ActionStep list option"

definition is_space :: "char \<Rightarrow> bool" where
  "is_space c = (c \<in> set [CHR '' '', CHR 0x09, CHR 0x0A, CHR 0x0B, CHR 0x0C, CHR 0x0D])"

fun split_ws :: "string \<Rightarrow> string \<Rightarrow> string list" where
  "split_ws word [] = (if word = [] then [] else [word])"
| "split_ws word (c # cs) =
     (if is_space c then (if word = [] then split_ws [] cs else word # split_ws [] cs)
      else split_ws (word @ [c]) cs)"

fun join_words :: "string list \<Rightarrow> string" where
  "join_words [] = []"
| "join_words [w] = w"
| "join_words (w # ws) = w @ '' '' @ join_words ws"

definition normalize :: "string \<Rightarrow> string" where
  "normalize text = join_words (split_ws [] text)"

text \<open>The text after a keyword that starts the line, matched without regard to case.\<close>

definition after_keyword :: "string \<Rightarrow> string \<Rightarrow> string option" where
  "after_keyword kw t =
     (if lower (take (length kw) t) = kw then Some (drop (length kw) t) else None)"

text \<open>The texts before and after the first occurrence of a phrase.\<close>

fun split_phrase :: "string \<Rightarrow> string \<Rightarrow> (string \<times> string) option" where
  "split_phrase ph [] = None"
| "split_phrase ph (c # cs) =
     (if lower (take (length ph) (c # cs)) = ph then Some ([], drop (length ph) (c # cs))
      else (case split_phrase ph cs of None \<Rightarrow> None | Some (before, after) \<Rightarrow> Some (c # before, after)))"

fun split_on :: "char \<Rightarrow> string \<Rightarrow> string list" where
  "split_on d [] = [[]]"
| "split_on d (c # cs) =
     (if c = d then [] # split_on d cs
      else (case split_on d cs of [] \<Rightarrow> [[c]] | w # ws \<Rightarrow> (c # w) # ws))"

definition strip :: "string \<Rightarrow> string" where
  "strip s = rev (dropWhile is_space (rev (dropWhile is_space s)))"

definition digit_value :: "char \<Rightarrow> nat option" where
  "digit_value c = map_of (zip ''0123456789'' [0, 1, 2, 3, 4, 5, 6, 7, 8, 9]) c"

fun digits_value :: "nat \<Rightarrow> string \<Rightarrow> nat option" where
  "digits_value acc [] = Some acc"
| "digits_value acc (c # cs) =
     (case digit_value c of None \<Rightarrow> None | Some d \<Rightarrow> digits_value (10 * acc + d) cs)"

definition number :: "string \<Rightarrow> int option" where
  "number s = (if s = [] then None else map_option int (digits_value 0 s))"

definition coordinates :: "string \<Rightarrow> (int \<times> int) option" where
  "coordinates s =
     (case map (number \<circ> strip) (split_on CHR '','' s) of
        [Some x, Some y] \<Rightarrow> Some (x, y)
      | _ \<Rightarrow> None)"

text \<open>
  Modelled from the spec: the rules it names. The compound instruction
  \<open>open <app> and type <text>\<close> is in the more specific tier; the single-verb
  instructions take the application name after \<open>open\<close>, the literal text after \<open>type\<close>, the
  key names after \<open>press\<close> or \<open>hotkey\<close>, the coordinates after \<open>move to\<close> or \<open>click at\<close>, and
  the bare \<open>click\<close>.
\<close>

definition open_and_type_rule :: rule where
  "open_and_type_rule = \<lparr>tier = 2, recognize = (\<lambda>t.
     case after_keyword ''open '' t of None \<Rightarrow> None | Some rest \<Rightarrow>
       (case split_phrase '' and type '' rest of None \<Rightarrow> None | Some (app, txt) \<Rightarrow>
          if app = [] \<or> txt = [] then None else Some [OpenApp app, TypeText txt]))\<rparr>"

definition open_rule :: rule where
  "open_rule = \<lparr>tier = 1, recognize = (\<lambda>t.
     case after_keyword ''open '' t of None \<Rightarrow> None | Some app \<Rightarrow> Some [OpenApp app])\<rparr>"

definition type_rule :: rule where
  "type_rule = \<lparr>tier = 1, recognize = (\<lambda>t.
     case after_keyword ''type '' t of None \<Rightarrow> None | Some txt \<Rightarrow> Some [TypeText txt])\<rparr>"

definition keys_rule :: "string \<Rightarrow> rule" where
  "keys_rule kw = \<lparr>tier = 1, recognize = (\<lambda>t.
     case after_keyword kw t of None \<Rightarrow> None | Some ks \<Rightarrow>
       if [] \<in> set (map strip (split_on CHR ''+'' ks)) then None
       else Some [Hotkey (map strip (split_on CHR ''+'' ks))])\<rparr>"

definition move_to_rule :: rule where
  "move_to_rule = \<lparr>tier = 1, recognize = (\<lambda>t.
     case after_keyword ''move to '' t of None \<Rightarrow> None | Some rest \<Rightarrow>
       (case coordinates rest of None \<Rightarrow> None | Some (x, y) \<Rightarrow> Some [MoveMouse x y]))\<rparr>"

definition click_at_rule :: rule where
  "click_at_rule = \<lparr>tier = 1, recognize = (\<lambda>t.
     case after_keyword ''click at '' t of None \<Rightarrow> None | Some rest \<Rightarrow>
       (case coordinates rest of None \<Rightarrow> None | Some (x, y) \<Rightarrow> Some [Click (Some x) (Some y) ''left'']))\<rparr>"

definition click_rule :: rule where
  "click_rule = \<lparr>tier = 1, recognize = (\<lambda>t.
     if lower t = ''click'' then Some [Click None None ''left''] else None)\<rparr>"

definition spec_rules :: "rule list" where
  "spec_rules = [open_and_type_rule, open_rule, type_rule, keys_rule ''press '', keys_rule ''hotkey '',
                 move_to_rule, click_at_rule, click_rule]"

text \<open>
  Modelled from the spec: \<open>parse(text) -> ActionPlan\<close>. The rules that match the normalized
  text are collected with their tiers. No match is \<open>UnrecognizedTask\<close>; otherwise the
  plan built in the highest matching tier wins, and two rules of that tier that build
  different plans are \<open>AmbiguousTask\<close>. Both failures name the text.
\<close>

definition matches :: "rule list \<Rightarrow> string \<Rightarrow> (nat \<times> ActionStep list) list" where
  "matches table t = concat (map (\<lambda>r. case recognize r t of None \<Rightarrow> [] | Some plan \<Rightarrow> [(tier r, plan)]) table)"

definition parse_with :: "rule list \<Rightarrow> string \<Rightarrow> parse_error + ActionStep list" where
  "parse_with table text =
     (let hits = matches table (normalize text) in
      if hits = [] then Inl (UnrecognizedTask text)
      else (let top = fold max (map fst hits) 0;
                plans = map snd (filter (\<lambda>h. fst h = top) hits)
            in if list_all (\<lambda>p. p = hd plans) plans then Inr (hd plans)
               else Inl (AmbiguousTask text)))"

definition parse :: "string \<Rightarrow> parse_error + ActionStep list" where
  "parse text = parse_with spec_rules text"

subsection \<open>Task Interpreter\<close>

text \<open>
  Modelled from the spec: the facade \<open>execute(taskText) -> ExecutionResult\<close> (the absent
  \<^verbatim>\<open>TaskInterpreter\<close>), parser then executor. A parse failure gives success false, no
  outcomes, and the parser's diagnostic as the message.
\<close>

definition diagnostic :: "parse_error \<Rightarrow> string" where
  "diagnostic e = (case e of
      UnrecognizedTask t \<Rightarrow> ''UnrecognizedTask: '' @ t
    | AmbiguousTask t \<Rightarrow> ''AmbiguousTask: '' @ t)"

definition execute :: "'w machine \<Rightarrow> Mode \<Rightarrow> string \<Rightarrow> 'w \<Rightarrow> ExecutionResult \<times> 'w" where
  "execute M mode taskText w =
     (case parse taskText of
        Inl e \<Rightarrow> (\<lparr>success = False, message = diagnostic e, outcomes = []\<rparr>, w)
      | Inr plan \<Rightarrow> run M plan mode w)"

section \<open>Properties of the transport layer\<close>

lemma invoke_mode: "SIMULATION_MODE (snd (invoke c f s)) = SIMULATION_MODE s"
  by (simp add: invoke_def split: prod.splits)

lemma invoke_mode': "invoke c f s = (r, s') \<Longrightarrow> SIMULATION_MODE s' = SIMULATION_MODE s"
  using invoke_mode [of c f s] by simp

lemma capture_screen_mode: "SIMULATION_MODE (snd (capture_screen C s)) = SIMULATION_MODE s"
  by (auto simp: capture_screen_def split: prod.splits sum.splits dest: invoke_mode')

lemma read_screen_text_mode: "SIMULATION_MODE (snd (read_screen_text C s)) = SIMULATION_MODE s"
  by (auto simp: read_screen_text_def split: prod.splits sum.splits dest: invoke_mode')

lemma move_mouse_mode: "SIMULATION_MODE (snd (move_mouse C b s)) = SIMULATION_MODE s"
  by (auto simp: move_mouse_def split: prod.splits sum.splits dest: invoke_mode')

lemma click_mouse_mode: "SIMULATION_MODE (snd (click_mouse C b s)) = SIMULATION_MODE s"
  by (auto simp: click_mouse_def split: prod.splits sum.splits if_splits dest: invoke_mode')

lemma type_text_mode: "SIMULATION_MODE (snd (type_text C b s)) = SIMULATION_MODE s"
  by (auto simp: type_text_def split: prod.splits sum.splits dest: invoke_mode')

lemma press_hotkey_mode: "SIMULATION_MODE (snd (press_hotkey C b s)) = SIMULATION_MODE s"
  by (auto simp: press_hotkey_def split: prod.splits sum.splits json.splits dest: invoke_mode')

lemma open_application_mode: "SIMULATION_MODE (snd (open_application C X b s)) = SIMULATION_MODE s"
  by (auto simp: open_application_def split: prod.splits sum.splits dest: invoke_mode')

lemma execute_task_mode: "SIMULATION_MODE (snd (execute_task C b s)) = SIMULATION_MODE s"
  by (auto simp: execute_task_def split: prod.splits sum.splits dest: invoke_mode')

lemma handle_mode: "SIMULATION_MODE (snd (handle C X r s)) = SIMULATION_MODE s"
proof (cases r)
  case GetScreenCapture
  then show ?thesis using capture_screen_mode [of C s] by (auto split: prod.splits)
next
  case GetScreenText
  then show ?thesis using read_screen_text_mode [of C s] by (auto split: prod.splits)
next
  case (PostMouseMove b)
  then show ?thesis using move_mouse_mode [of C b s] by (auto split: prod.splits)
next
  case (PostMouseClick b)
  then show ?thesis using click_mouse_mode [of C b s] by (auto split: prod.splits)
next
  case (PostKeyboardType b)
  then show ?thesis using type_text_mode [of C b s] by (auto split: prod.splits)
next
  case (PostKeyboardHotkey b)
  then show ?thesis using press_hotkey_mode [of C b s] by (auto split: prod.splits)
next
  case (PostAppOpen b)
  then show ?thesis using open_application_mode [of C X b s] by (auto split: prod.splits)
next
  case (PostTaskExecute b)
  then show ?thesis using execute_task_mode [of C b s] by (auto split: prod.splits)
qed simp_all

lemma serve_mode: "SIMULATION_MODE (snd (serve C X rs s)) = SIMULATION_MODE s"
proof (induction rs arbitrary: s)
  case Nil
  show ?case by simp
next
  case (Cons r rs)
  obtain a s' where h: "handle C X r s = (a, s')" by (cases "handle C X r s")
  have "SIMULATION_MODE s' = SIMULATION_MODE s" using handle_mode [of C X r s] h by simp
  moreover have "SIMULATION_MODE (snd (serve C X rs s')) = SIMULATION_MODE s'" by (rule Cons.IH)
  ultimately show ?case using h by (auto split: prod.splits)
qed

lemma lower_true [simp]: "lower ''TRUE'' = ''true''" "lower ''true'' = ''true''" "lower '''' = ''''"
  by (simp_all add: lower_def lower_char_def)

text \<open>
  C7. The simulation flag is computed by the start-up code from the display probe and the
  environment: it is set when \<^verbatim>\<open>FORCE_SIMULATION_MODE\<close> lower-cases to \<^verbatim>\<open>true\<close>, whatever the
  probe gave, and otherwise exactly when the probe raised. No view assigns it: after any
  sequence of requests, whatever their bodies and whatever the components do, the flag
  still has the value resolved at start-up.
\<close>

theorem simulation_mode_fixed_at_startup:
  "resolve_simulation_mode p env = (forced env \<or> probe_raised p)
   \<and> (forced env \<longrightarrow> (\<forall>q. resolve_simulation_mode q env))
   \<and> SIMULATION_MODE (startup p env w) = resolve_simulation_mode p env
   \<and> SIMULATION_MODE (snd (serve C X rs (startup p env w))) = resolve_simulation_mode p env"
proof -
  have a: "resolve_simulation_mode q env = (forced env \<or> probe_raised q)" for q
    by (cases q) (simp_all add: resolve_simulation_mode_def forced_def)
  have b: "SIMULATION_MODE (startup p env w) = resolve_simulation_mode p env"
    by (simp add: startup_def)
  have c: "SIMULATION_MODE (snd (serve C X rs (startup p env w))) = SIMULATION_MODE (startup p env w)"
    by (rule serve_mode)
  show ?thesis using a b c by simp
qed

theorem simulation_mode_fixed_at_startup_witness:
  "forced [''FORCE_SIMULATION_MODE'' \<mapsto> ''TRUE'']
   \<and> resolve_simulation_mode (ScreenSize 1920 1080) [''FORCE_SIMULATION_MODE'' \<mapsto> ''TRUE'']
   \<and> SIMULATION_MODE (snd (serve idle_components plain_externals
         [PostMouseClick (Inr (JObj [(''x'', JInt 3), (''y'', JInt 4)])), GetDownload ''linux'']
         (startup (ScreenSize 1920 1080) [''FORCE_SIMULATION_MODE'' \<mapsto> ''TRUE''] ())))
   \<and> \<not> resolve_simulation_mode (ScreenSize 1920 1080) Map.empty
   \<and> resolve_simulation_mode (ProbeRaised ''DISPLAY'') Map.empty"
proof -
  have f: "forced [''FORCE_SIMULATION_MODE'' \<mapsto> ''TRUE'']"
    by (simp add: forced_def environ_get_def)
  have n: "\<not> forced Map.empty"
    by (simp add: forced_def environ_get_def)
  show ?thesis
    using f n
      simulation_mode_fixed_at_startup [of "ScreenSize 1920 1080" "[''FORCE_SIMULATION_MODE'' \<mapsto> ''TRUE'']" "()"
        idle_components plain_externals
        "[PostMouseClick (Inr (JObj [(''x'', JInt 3), (''y'', JInt 4)])), GetDownload ''linux'']"]
      simulation_mode_fixed_at_startup [of "ScreenSize 1920 1080" Map.empty "()" idle_components plain_externals "[]"]
      simulation_mode_fixed_at_startup [of "ProbeRaised ''DISPLAY''" Map.empty "()" idle_components plain_externals "[]"]
    by simp
qed

lemma invoke_calls: "invoke c f s = (r, s') \<Longrightarrow> calls s' = calls s @ [c]"
  by (auto simp: invoke_def split: prod.splits)

text \<open>
  C9. A typing request whose JSON object has no \<^verbatim>\<open>text\<close> entry, or has the empty string
  there, is answered with status 400, \<^verbatim>\<open>success\<close> false and the error \<^verbatim>\<open>Missing text\<close>, and
  the process state is unchanged: no component was called. For any request at all, the
  view calls at most \<^verbatim>\<open>input_controller.type_text\<close>, once, and then with the body's
  \<^verbatim>\<open>text\<close> value, which is truthy: neither \<^verbatim>\<open>None\<close> nor the empty string.
\<close>

theorem type_text_missing_text:
  "(map_of kvs ''text'' = None \<or> map_of kvs ''text'' = Some (JStr '''') \<longrightarrow>
      type_text C (Inr (JObj kvs)) s
        = ((Json (JObj [(''success'', JBool False), (''error'', JStr ''Missing text'')]), 400), s))
   \<and> (calls (snd (type_text C body s)) = calls s
      \<or> (\<exists>data t. body = Inr data \<and> get data ''text'' = Inr t
            \<and> calls (snd (type_text C body s)) = calls s @ [TypeTextOf t]
            \<and> truthy t \<and> t \<noteq> JNull \<and> t \<noteq> JStr ''''))"
proof
  show "map_of kvs ''text'' = None \<or> map_of kvs ''text'' = Some (JStr '''') \<longrightarrow>
      type_text C (Inr (JObj kvs)) s
        = ((Json (JObj [(''success'', JBool False), (''error'', JStr ''Missing text'')]), 400), s)"
    by (auto simp: type_text_def get_def failure_def)
next
  show "calls (snd (type_text C body s)) = calls s
      \<or> (\<exists>data t. body = Inr data \<and> get data ''text'' = Inr t
            \<and> calls (snd (type_text C body s)) = calls s @ [TypeTextOf t]
            \<and> truthy t \<and> t \<noteq> JNull \<and> t \<noteq> JStr '''')"
  proof (cases body)
    case (Inl e)
    then show ?thesis by (simp add: type_text_def)
  next
    case (Inr data)
    show ?thesis
    proof (cases "get data ''text''")
      case (Inl e)
      with Inr show ?thesis by (simp add: type_text_def)
    next
      case t: (Inr t)
      show ?thesis
      proof (cases "truthy t")
        case False
        with Inr t show ?thesis by (simp add: type_text_def)
      next
        case True
        obtain r s' where i: "invoke (TypeTextOf t) (input_controller_type_text C t) s = (r, s')"
          by (cases "invoke (TypeTextOf t) (input_controller_type_text C t) s")
        have "calls s' = calls s @ [TypeTextOf t]" using i by (rule invoke_calls)
        moreover have "snd (type_text C body s) = s'"
          using Inr t True i by (cases r) (simp_all add: type_text_def)
        moreover have "t \<noteq> JNull \<and> t \<noteq> JStr ''''" using True by auto
        ultimately show ?thesis using Inr t True by auto
      qed
    qed
  qed
qed

theorem type_text_missing_text_witness:
  "map_of [(''text'', JStr '''')] ''text'' = Some (JStr '''')
   \<and> type_text idle_components (Inr (JObj [(''text'', JStr '''')])) \<lparr>SIMULATION_MODE = True, world = (), calls = []\<rparr>
        = ((Json (JObj [(''success'', JBool False), (''error'', JStr ''Missing text'')]), 400),
           \<lparr>SIMULATION_MODE = True, world = (), calls = []\<rparr>)
   \<and> map_of [] ''text'' = (None :: json option)
   \<and> type_text idle_components (Inr (JObj [])) \<lparr>SIMULATION_MODE = True, world = (), calls = []\<rparr>
        = ((Json (JObj [(''success'', JBool False), (''error'', JStr ''Missing text'')]), 400),
           \<lparr>SIMULATION_MODE = True, world = (), calls = []\<rparr>)"
  using type_text_missing_text [of "[(''text'', JStr '''')]" idle_components "\<lparr>SIMULATION_MODE = True, world = (), calls = []\<rparr>"]
    type_text_missing_text [of "[]" idle_components "\<lparr>SIMULATION_MODE = True, world = (), calls = []\<rparr>"]
  by simp

lemma invoke_eq:
  "invoke c f s = (fst (f (world s)), s\<lparr>world := snd (f (world s)), calls := calls s @ [c]\<rparr>)"
  by (simp add: invoke_def case_prod_beta)

lemma click_mouse_unfold:
  "click_mouse C (Inr (JObj kvs)) s =
     (case (if entry kvs ''x'' JNull \<noteq> JNull \<and> entry kvs ''y'' JNull \<noteq> JNull
            then invoke (ClickAt (entry kvs ''x'' JNull) (entry kvs ''y'' JNull) (entry kvs ''button'' (JStr ''left'')))
                   (input_controller_click C (Some (entry kvs ''x'' JNull, entry kvs ''y'' JNull))
                      (entry kvs ''button'' (JStr ''left''))) s
            else invoke (ClickButton (entry kvs ''button'' (JStr ''left'')))
                   (input_controller_click C None (entry kvs ''button'' (JStr ''left''))) s) of
        (Inl e, s') \<Rightarrow> (caught e, s')
      | (Inr u, s') \<Rightarrow> (succeeded [], s'))"
  by (simp add: click_mouse_def get_def entry_def)

lemma click_mouse_explicit:
  assumes "entry kvs ''x'' JNull \<noteq> JNull \<and> entry kvs ''y'' JNull \<noteq> JNull"
  shows "click_mouse C (Inr (JObj kvs)) s =
     (let x = entry kvs ''x'' JNull; y = entry kvs ''y'' JNull;
          button = entry kvs ''button'' (JStr ''left'');
          clicked = input_controller_click C (Some (x, y)) button (world s)
      in ((case fst clicked of Inl e \<Rightarrow> caught e | Inr u \<Rightarrow> succeeded []),
          s\<lparr>world := snd clicked, calls := calls s @ [ClickAt x y button]\<rparr>))"
  using assms
  by (cases "fst (input_controller_click C (Some (entry kvs ''x'' JNull, entry kvs ''y'' JNull))
                    (entry kvs ''button'' (JStr ''left'')) (world s))")
     (simp_all add: click_mouse_unfold invoke_eq Let_def)

lemma click_mouse_at_pointer:
  assumes "entry kvs ''x'' JNull = JNull \<or> entry kvs ''y'' JNull = JNull"
  shows "click_mouse C (Inr (JObj kvs)) s =
     (let button = entry kvs ''button'' (JStr ''left'');
          clicked = input_controller_click C None button (world s)
      in ((case fst clicked of Inl e \<Rightarrow> caught e | Inr u \<Rightarrow> succeeded []),
          s\<lparr>world := snd clicked, calls := calls s @ [ClickButton button]\<rparr>))"
  using assms
  by (cases "fst (input_controller_click C None (entry kvs ''button'' (JStr ''left'')) (world s))")
     (auto simp: click_mouse_unfold invoke_eq Let_def)

lemma entry_missing: "map_of kvs k = None \<Longrightarrow> entry kvs k d = d"
  by (simp add: entry_def)

lemma entry_present: "entry kvs k JNull \<noteq> JNull \<Longrightarrow> map_of kvs k = Some (entry kvs k JNull)"
  by (cases "map_of kvs k") (simp_all add: entry_def)

text \<open>
  C10. For a click request carrying a JSON object, the view makes exactly one call of
  \<^verbatim>\<open>input_controller.click\<close>, on the machine as the request finds it, and the machine is
  afterwards as that call left it; the answer is \<^verbatim>\<open>success\<close> true when the call returned
  and status 500 with the exception's text when it raised. The call carries coordinates
  only if the object has both an \<^verbatim>\<open>x\<close> and a \<^verbatim>\<open>y\<close> entry (exactly when neither
  \<^verbatim>\<open>data.get\<close> gives \<^verbatim>\<open>None\<close>); if either entry is missing the call is
  \<^verbatim>\<open>click(button=button)\<close>, the click at the current pointer position. In both forms the
  button passed is the object's \<^verbatim>\<open>button\<close> entry, and \<^verbatim>\<open>left\<close> when the object has none.
\<close>

theorem click_mouse_dispatch:
  "click_mouse C (Inr (JObj kvs)) s =
     (let x = entry kvs ''x'' JNull; y = entry kvs ''y'' JNull;
          button = entry kvs ''button'' (JStr ''left'');
          explicit = (x \<noteq> JNull \<and> y \<noteq> JNull);
          clicked = input_controller_click C (if explicit then Some (x, y) else None) button (world s)
      in ((case fst clicked of Inl e \<Rightarrow> caught e | Inr u \<Rightarrow> succeeded []),
          s\<lparr>world := snd clicked,
            calls := calls s @ [if explicit then ClickAt x y button else ClickButton button]\<rparr>))
   \<and> (\<forall>x y b. calls (snd (click_mouse C (Inr (JObj kvs)) s)) = calls s @ [ClickAt x y b]
         \<longrightarrow> map_of kvs ''x'' = Some x \<and> map_of kvs ''y'' = Some y \<and> x \<noteq> JNull \<and> y \<noteq> JNull)
   \<and> (map_of kvs ''x'' = None \<or> map_of kvs ''y'' = None
         \<longrightarrow> click_mouse C (Inr (JObj kvs)) s =
               (let button = entry kvs ''button'' (JStr ''left'');
                    clicked = input_controller_click C None button (world s)
                in ((case fst clicked of Inl e \<Rightarrow> caught e | Inr u \<Rightarrow> succeeded []),
                    s\<lparr>world := snd clicked, calls := calls s @ [ClickButton button]\<rparr>)))
   \<and> (map_of kvs ''button'' = None \<longrightarrow> entry kvs ''button'' (JStr ''left'') = JStr ''left'')
   \<and> (\<forall>b. map_of kvs ''button'' = Some b \<longrightarrow> entry kvs ''button'' (JStr ''left'') = b)"
proof (intro conjI allI impI)
  let ?x = "entry kvs ''x'' JNull" and ?y = "entry kvs ''y'' JNull"
  let ?b = "entry kvs ''button'' (JStr ''left'')"
  show "click_mouse C (Inr (JObj kvs)) s =
     (let x = entry kvs ''x'' JNull; y = entry kvs ''y'' JNull;
          button = entry kvs ''button'' (JStr ''left'');
          explicit = (x \<noteq> JNull \<and> y \<noteq> JNull);
          clicked = input_controller_click C (if explicit then Some (x, y) else None) button (world s)
      in ((case fst clicked of Inl e \<Rightarrow> caught e | Inr u \<Rightarrow> succeeded []),
          s\<lparr>world := snd clicked,
            calls := calls s @ [if explicit then ClickAt x y button else ClickButton button]\<rparr>))"
  proof (cases "?x \<noteq> JNull \<and> ?y \<noteq> JNull")
    case True
    show ?thesis unfolding click_mouse_explicit [OF True] using True by (simp add: Let_def)
  next
    case False
    then have n: "?x = JNull \<or> ?y = JNull" by simp
    show ?thesis unfolding click_mouse_at_pointer [OF n] using n by (auto simp: Let_def)
  qed
next
  fix x y b
  assume c: "calls (snd (click_mouse C (Inr (JObj kvs)) s)) = calls s @ [ClickAt x y b]"
  let ?x = "entry kvs ''x'' JNull" and ?y = "entry kvs ''y'' JNull"
  have e: "?x \<noteq> JNull \<and> ?y \<noteq> JNull"
  proof (rule ccontr)
    assume "\<not> (?x \<noteq> JNull \<and> ?y \<noteq> JNull)"
    then have n: "?x = JNull \<or> ?y = JNull" by simp
    show False using c unfolding click_mouse_at_pointer [OF n] by (simp add: Let_def)
  qed
  have xy: "x = ?x \<and> y = ?y"
    using c unfolding click_mouse_explicit [OF e] by (simp add: Let_def)
  show "map_of kvs ''x'' = Some x" using e xy entry_present [of kvs "''x''"] by simp
  show "map_of kvs ''y'' = Some y" using e xy entry_present [of kvs "''y''"] by simp
  show "x \<noteq> JNull" using e xy by simp
  show "y \<noteq> JNull" using e xy by simp
next
  assume "map_of kvs ''x'' = None \<or> map_of kvs ''y'' = None"
  then have n: "entry kvs ''x'' JNull = JNull \<or> entry kvs ''y'' JNull = JNull"
    using entry_missing [of kvs "''x''" JNull] entry_missing [of kvs "''y''" JNull] by blast
  show "click_mouse C (Inr (JObj kvs)) s =
               (let button = entry kvs ''button'' (JStr ''left'');
                    clicked = input_controller_click C None button (world s)
                in ((case fst clicked of Inl e \<Rightarrow> caught e | Inr u \<Rightarrow> succeeded []),
                    s\<lparr>world := snd clicked, calls := calls s @ [ClickButton button]\<rparr>))"
    by (rule click_mouse_at_pointer [OF n])
next
  assume "map_of kvs ''button'' = None"
  then show "entry kvs ''button'' (JStr ''left'') = JStr ''left''" by (rule entry_missing)
next
  fix b
  assume "map_of kvs ''button'' = Some b"
  then show "entry kvs ''button'' (JStr ''left'') = b" by (simp add: entry_def)
qed

theorem click_mouse_dispatch_witness:
  "map_of [(''x'', JInt 10)] ''y'' = None
   \<and> map_of [(''x'', JInt 10)] ''button'' = None
   \<and> click_mouse clicked_components (Inr (JObj [(''x'', JInt 10)])) \<lparr>SIMULATION_MODE = False, world = [], calls = []\<rparr>
       = (succeeded [],
          \<lparr>SIMULATION_MODE = False, world = [(None, JStr ''left'')], calls = [ClickButton (JStr ''left'')]\<rparr>)
   \<and> map_of [(''x'', JInt 10), (''y'', JInt 20), (''button'', JStr ''right'')] ''button'' = Some (JStr ''right'')
   \<and> click_mouse clicked_components (Inr (JObj [(''x'', JInt 10), (''y'', JInt 20), (''button'', JStr ''right'')]))
         \<lparr>SIMULATION_MODE = False, world = [], calls = []\<rparr>
       = (succeeded [],
          \<lparr>SIMULATION_MODE = False, world = [(Some (JInt 10, JInt 20), JStr ''right'')],
             calls = [ClickAt (JInt 10) (JInt 20) (JStr ''right'')]\<rparr>)"
  using click_mouse_dispatch [of clicked_components "[(''x'', JInt 10)]"
      "\<lparr>SIMULATION_MODE = False, world = [], calls = []\<rparr>"]
    click_mouse_dispatch [of clicked_components "[(''x'', JInt 10), (''y'', JInt 20), (''button'', JStr ''right'')]"
      "\<lparr>SIMULATION_MODE = False, world = [], calls = []\<rparr>"]
  by (simp add: entry_def Let_def clicked_components_def)

section \<open>Properties of the task engine\<close>

lemma completed_simps [simp]:
  "step_success (completed d)" "error_detail (completed d) = None" "captured_data (completed d) = d"
  by (simp_all add: completed_def)

lemma failed_simps [simp]:
  "\<not> step_success (failed f)" "error_detail (failed f) = Some (describe f)" "captured_data (failed f) = None"
  by (simp_all add: failed_def)





lemma outcome_at_0: "outcome_at M mode (step # rest) w 0 = fst (exec_step M mode step w)"
  by (simp add: outcome_at_def)

lemma outcome_at_Suc:
  "outcome_at M mode (step # rest) w (Suc i) = outcome_at M mode rest (snd (exec_step M mode step w)) i"
  by (simp add: outcome_at_def)

lemma run_steps_halts:
  assumes "k < length plan"
    and "\<forall>i<k. step_success (outcome_at M mode plan w i)"
    and "\<not> step_success (outcome_at M mode plan w k)"
  shows "fst (run_steps M mode plan w) = map (outcome_at M mode plan w) [0..<Suc k]"
  using assms
proof (induction plan arbitrary: w k)
  case Nil
  then show ?case by simp
next
  case (Cons step rest)
  obtain out w' where e: "exec_step M mode step w = (out, w')"
    by (cases "exec_step M mode step w")
  show ?case
  proof (cases k)
    case 0
    then have "\<not> step_success out" using Cons.prems(3) e by (simp add: outcome_at_0)
    then show ?thesis using e 0 by (simp add: outcome_at_0)
  next
    case (Suc j)
    have s0: "step_success out"
      using Cons.prems(2) Suc e by (auto simp: outcome_at_0 dest: spec [of _ 0])
    have j: "j < length rest" using Cons.prems(1) Suc by simp
    have pre: "\<forall>i<j. step_success (outcome_at M mode rest w' i)"
    proof (intro allI impI)
      fix i assume "i < j"
      then have "Suc i < k" using Suc by simp
      then have "step_success (outcome_at M mode (step # rest) w (Suc i))" using Cons.prems(2) by blast
      then show "step_success (outcome_at M mode rest w' i)" using e by (simp add: outcome_at_Suc)
    qed
    have fl: "\<not> step_success (outcome_at M mode rest w' j)"
      using Cons.prems(3) Suc e by (simp add: outcome_at_Suc)
    have ih: "fst (run_steps M mode rest w') = map (outcome_at M mode rest w') [0..<Suc j]"
      using Cons.IH [OF j pre fl] .
    have m: "map (outcome_at M mode (step # rest) w) [0..<Suc (Suc j)]
             = out # map (outcome_at M mode rest w') [0..<Suc j]"
      using e by (simp only: map_upt_Suc [of _ "Suc j"] outcome_at_0 outcome_at_Suc fst_conv snd_conv)
    obtain outs w'' where r: "run_steps M mode rest w' = (outs, w'')"
      by (cases "run_steps M mode rest w'")
    show ?thesis using e s0 r ih m Suc by simp
  qed
qed

lemma run_steps_completes:
  assumes "\<forall>i<length plan. step_success (outcome_at M mode plan w i)"
  shows "fst (run_steps M mode plan w) = map (outcome_at M mode plan w) [0..<length plan]"
  using assms
proof (induction plan arbitrary: w)
  case Nil
  then show ?case by simp
next
  case (Cons step rest)
  obtain out w' where e: "exec_step M mode step w = (out, w')"
    by (cases "exec_step M mode step w")
  have s0: "step_success out"
    using Cons.prems e by (auto simp: outcome_at_0 dest: spec [of _ 0])
  have pre: "\<forall>i<length rest. step_success (outcome_at M mode rest w' i)"
  proof (intro allI impI)
    fix i assume "i < length rest"
    then have "Suc i < length (step # rest)" by simp
    then have "step_success (outcome_at M mode (step # rest) w (Suc i))" using Cons.prems by blast
    then show "step_success (outcome_at M mode rest w' i)" using e by (simp add: outcome_at_Suc)
  qed
  have ih: "fst (run_steps M mode rest w') = map (outcome_at M mode rest w') [0..<length rest]"
    using Cons.IH [OF pre] .
  have m: "map (outcome_at M mode (step # rest) w) [0..<Suc (length rest)]
           = out # map (outcome_at M mode rest w') [0..<length rest]"
    using e by (simp only: map_upt_Suc [of _ "length rest"] outcome_at_0 outcome_at_Suc fst_conv snd_conv)
  obtain outs w'' where r: "run_steps M mode rest w' = (outs, w'')"
    by (cases "run_steps M mode rest w'")
  show ?case using e s0 r ih m by simp
qed

lemma of_unit_shape:
  "(\<exists>d. fst (of_unit r) = completed d) \<or> (\<exists>f. fst (of_unit r) = failed f)"
proof (cases r)
  case (Pair a w')
  show ?thesis
  proof (cases a)
    case (Inl f)
    have "fst (of_unit r) = failed f" using Pair Inl by (simp add: of_unit_def)
    then show ?thesis by blast
  next
    case (Inr u)
    have "fst (of_unit r) = completed None" using Pair Inr by (simp add: of_unit_def)
    then show ?thesis by blast
  qed
qed

lemma dispatch_shape:
  "(\<exists>d. fst (dispatch M mode step w) = completed d) \<or> (\<exists>f. fst (dispatch M mode step w) = failed f)"
proof (cases step)
  case (OpenApp name)
  obtain ok detail w' where o: "open_app M mode name w = ((ok, detail), w')"
    by (cases "open_app M mode name w") auto
  show ?thesis
  proof (cases ok)
    case True
    have "fst (dispatch M mode step w) = completed None" using OpenApp o True by simp
    then show ?thesis by blast
  next
    case False
    have "fst (dispatch M mode step w) = failed (ApplicationNotFound detail)" using OpenApp o False by simp
    then show ?thesis by blast
  qed
next
  case CaptureScreen
  obtain r w' where o: "capture M mode w = (r, w')" by (cases "capture M mode w")
  show ?thesis
  proof (cases r)
    case (Inl f)
    have "fst (dispatch M mode step w) = failed f" using CaptureScreen o Inl by simp
    then show ?thesis by blast
  next
    case (Inr p)
    have "fst (dispatch M mode step w) = completed (Some (CapturedImage (fst p) (snd p)))"
      using CaptureScreen o Inr by (simp add: case_prod_beta)
    then show ?thesis by blast
  qed
next
  case ReadScreenText
  obtain r w' where o: "extractText M mode w = (r, w')" by (cases "extractText M mode w")
  show ?thesis
  proof (cases r)
    case (Inl f)
    have "fst (dispatch M mode step w) = failed f" using ReadScreenText o Inl by simp
    then show ?thesis by blast
  next
    case (Inr s)
    have "fst (dispatch M mode step w) = completed (Some (CapturedText s))"
      using ReadScreenText o Inr by simp
    then show ?thesis by blast
  qed
next
  case (Wait ms)
  have "fst (dispatch M mode step w) = completed None" using Wait by simp
  then show ?thesis by blast
qed (simp_all only: dispatch.simps of_unit_shape)

lemma exec_step_shape:
  "(\<exists>d. fst (exec_step M mode step w) = completed d) \<or> (\<exists>f. fst (exec_step M mode step w) = failed f)"
proof (cases "validate M mode step")
  case (Some r)
  have "fst (exec_step M mode step w) = failed (StepValidationError r)"
    using Some by (simp add: exec_step_def)
  then show ?thesis by blast
next
  case None
  have "fst (exec_step M mode step w) = fst (dispatch M mode step w)"
    using None by (simp add: exec_step_def)
  then show ?thesis using dispatch_shape [of M mode step w] by (simp only:)
qed

lemma exec_step_detail:
  "\<not> step_success (fst (exec_step M mode step w))
     \<Longrightarrow> \<exists>f. fst (exec_step M mode step w) = failed f"
  using exec_step_shape [of M mode step w] by auto

lemma run_outcomes: "outcomes (fst (run M plan mode w)) = fst (run_steps M mode plan w)"
  by (simp add: run_def split: prod.splits)

lemma run_success: "success (fst (run M plan mode w)) = list_all step_success (fst (run_steps M mode plan w))"
  by (simp add: run_def split: prod.splits)

lemma run_message: "message (fst (run M plan mode w)) = summary plan (fst (run_steps M mode plan w))"
  by (simp add: run_def split: prod.splits)





text \<open>
  C2. Whatever the plan, the mode and the machine: if the steps before position \<open>k\<close>
  (counted from 0) succeed and the step at \<open>k\<close> fails, the result holds exactly the
  outcomes of the steps at \<open>0, \<dots>, k\<close>, in plan order and each the outcome of its own
  step, nothing for a later step, success is false, and the message names the failing
  step by position and variant and ends with its error detail. If no step fails, the
  outcomes are those of all the steps, in plan order, and success is true.
\<close>

theorem run_halts_at_first_failure:
  "(k < length plan
      \<and> (\<forall>i<k. step_success (outcome_at M mode plan w i))
      \<and> \<not> step_success (outcome_at M mode plan w k)
    \<longrightarrow> outcomes (fst (run M plan mode w)) = map (outcome_at M mode plan w) [0..<Suc k]
        \<and> length (outcomes (fst (run M plan mode w))) = Suc k
        \<and> \<not> success (fst (run M plan mode w))
        \<and> (\<exists>d. error_detail (outcome_at M mode plan w k) = Some d
              \<and> message (fst (run M plan mode w))
                  = ''Step '' @ show_nat (Suc k) @ '' ('' @ step_name (plan ! k) @ '') failed: '' @ d))
   \<and> ((\<forall>i<length plan. step_success (outcome_at M mode plan w i))
    \<longrightarrow> outcomes (fst (run M plan mode w)) = map (outcome_at M mode plan w) [0..<length plan]
        \<and> success (fst (run M plan mode w)))"
proof (intro conjI impI)
  assume h: "k < length plan
      \<and> (\<forall>i<k. step_success (outcome_at M mode plan w i))
      \<and> \<not> step_success (outcome_at M mode plan w k)"
  let ?outs = "fst (run_steps M mode plan w)"
  have o: "?outs = map (outcome_at M mode plan w) [0..<Suc k]"
    using h by (intro run_steps_halts) simp_all
  show "outcomes (fst (run M plan mode w)) = map (outcome_at M mode plan w) [0..<Suc k]"
    using o by (simp only: run_outcomes)
  show "length (outcomes (fst (run M plan mode w))) = Suc k"
    using o by (simp add: run_outcomes)
  have l: "last ?outs = outcome_at M mode plan w k"
    unfolding o by simp
  have n: "\<not> list_all step_success ?outs"
    unfolding o using h by (simp add: list_all_iff)
  show "\<not> success (fst (run M plan mode w))"
    using n by (simp add: run_success)
  obtain f where f: "outcome_at M mode plan w k = failed f"
    using h exec_step_detail [of M mode "plan ! k" "world_after M mode (take k plan) w"]
    by (auto simp: outcome_at_def)
  have len: "length ?outs = Suc k" unfolding o by simp
  have "message (fst (run M plan mode w))
          = ''Step '' @ show_nat (Suc k) @ '' ('' @ step_name (plan ! k) @ '') failed: '' @ describe f"
    unfolding run_message summary_def using n l f len by simp
  then show "\<exists>d. error_detail (outcome_at M mode plan w k) = Some d
              \<and> message (fst (run M plan mode w))
                  = ''Step '' @ show_nat (Suc k) @ '' ('' @ step_name (plan ! k) @ '') failed: '' @ d"
    using f by simp
next
  assume a: "\<forall>i<length plan. step_success (outcome_at M mode plan w i)"
  have o: "fst (run_steps M mode plan w) = map (outcome_at M mode plan w) [0..<length plan]"
    using a by (rule run_steps_completes)
  show "outcomes (fst (run M plan mode w)) = map (outcome_at M mode plan w) [0..<length plan]"
    using o by (simp only: run_outcomes)
  show "success (fst (run M plan mode w))"
    unfolding run_success o using a by (simp add: list_all_iff)
qed

lemma bare_desk_outcomes:
  "step_success (outcome_at bare_desk Live [TypeText ''a'', OpenApp ''nonexistent-app-xyz'', CaptureScreen] () 0)"
  "\<not> step_success (outcome_at bare_desk Live [TypeText ''a'', OpenApp ''nonexistent-app-xyz'', CaptureScreen] () 1)"
  by (simp_all add: outcome_at_def exec_step_def validate_def bare_desk_def desk_def of_unit_def type_input_def open_app_def)

lemma desk_outcomes:
  "step_success (outcome_at desk Live [TypeText ''a'', CaptureScreen] () 0)"
  "step_success (outcome_at desk Live [TypeText ''a'', CaptureScreen] () 1)"
  by (simp_all add: outcome_at_def exec_step_def validate_def desk_def of_unit_def type_input_def capture_def)

theorem run_halts_at_first_failure_witness:
  "(1::nat) < length [TypeText ''a'', OpenApp ''nonexistent-app-xyz'', CaptureScreen]
   \<and> step_success (outcome_at bare_desk Live [TypeText ''a'', OpenApp ''nonexistent-app-xyz'', CaptureScreen] () 0)
   \<and> \<not> step_success (outcome_at bare_desk Live [TypeText ''a'', OpenApp ''nonexistent-app-xyz'', CaptureScreen] () 1)
   \<and> length (outcomes (fst (run bare_desk [TypeText ''a'', OpenApp ''nonexistent-app-xyz'', CaptureScreen] Live ()))) = 2
   \<and> \<not> success (fst (run bare_desk [TypeText ''a'', OpenApp ''nonexistent-app-xyz'', CaptureScreen] Live ()))
   \<and> message (fst (run bare_desk [TypeText ''a'', OpenApp ''nonexistent-app-xyz'', CaptureScreen] Live ()))
       = ''Step 2 (OpenApp) failed: ApplicationNotFound: no application named nonexistent-app-xyz''
   \<and> step_success (outcome_at desk Live [TypeText ''a'', CaptureScreen] () 0)
   \<and> step_success (outcome_at desk Live [TypeText ''a'', CaptureScreen] () 1)
   \<and> success (fst (run desk [TypeText ''a'', CaptureScreen] Live ()))
   \<and> length (outcomes (fst (run desk [TypeText ''a'', CaptureScreen] Live ()))) = 2"
proof -
  have d: "error_detail (outcome_at bare_desk Live [TypeText ''a'', OpenApp ''nonexistent-app-xyz'', CaptureScreen] () 1)
             = Some ''ApplicationNotFound: no application named nonexistent-app-xyz''"
    by (simp add: outcome_at_def exec_step_def validate_def bare_desk_def desk_def of_unit_def type_input_def open_app_def describe_def)
  have a2: "\<forall>i<length [TypeText ''a'', CaptureScreen]. step_success (outcome_at desk Live [TypeText ''a'', CaptureScreen] () i)"
    using desk_outcomes by (simp add: All_less_Suc numeral_2_eq_2)
  have a1: "\<forall>i<(1::nat). step_success (outcome_at bare_desk Live [TypeText ''a'', OpenApp ''nonexistent-app-xyz'', CaptureScreen] () i)"
    using bare_desk_outcomes by simp
  show ?thesis
    using run_halts_at_first_failure [of 1 "[TypeText ''a'', OpenApp ''nonexistent-app-xyz'', CaptureScreen]" bare_desk Live "()"]
      run_halts_at_first_failure [of 0 "[TypeText ''a'', CaptureScreen]" desk Live "()"]
      bare_desk_outcomes desk_outcomes d a1 a2
    by simp
qed

lemma parse_open_and_type:
  "parse ''open notepad and type hello world'' = Inr [OpenApp ''notepad'', TypeText ''hello world'']"
  by code_simp

lemma parse_nonsense: "parse ''xyzzy nonsense'' = Inl (UnrecognizedTask ''xyzzy nonsense'')"
  by code_simp

lemma parse_empty: "parse '''' = Inl (UnrecognizedTask '''')"
  by code_simp

text \<open>
  C4. On the empty text and on \<open>xyzzy nonsense\<close> the facade returns success false, no step
  outcome, and the parser's diagnostic, which names the text; the machine is not touched.
\<close>

theorem execute_unrecognized:
  "execute M mode '''' w = (\<lparr>success = False, message = ''UnrecognizedTask: '', outcomes = []\<rparr>, w)
   \<and> execute M mode ''xyzzy nonsense'' w
       = (\<lparr>success = False, message = ''UnrecognizedTask: xyzzy nonsense'', outcomes = []\<rparr>, w)"
  by (simp add: execute_def parse_empty parse_nonsense diagnostic_def)

text \<open>
  C5. The text \<open>open notepad and type hello world\<close> parses to the plan of \<open>OpenApp notepad\<close>
  followed by \<open>TypeText hello world\<close>; run in Simulated mode, on any machine, the plan gives
  success and exactly two outcomes, both successful, and so does the facade on the text.
\<close>

theorem open_notepad_and_type:
  "parse ''open notepad and type hello world'' = Inr [OpenApp ''notepad'', TypeText ''hello world'']
   \<and> success (fst (run M [OpenApp ''notepad'', TypeText ''hello world''] Simulated w))
   \<and> map step_success (outcomes (fst (run M [OpenApp ''notepad'', TypeText ''hello world''] Simulated w)))
       = [True, True]
   \<and> map error_detail (outcomes (fst (run M [OpenApp ''notepad'', TypeText ''hello world''] Simulated w)))
       = [None, None]
   \<and> execute M Simulated ''open notepad and type hello world'' w
       = run M [OpenApp ''notepad'', TypeText ''hello world''] Simulated w"
  by (simp add: parse_open_and_type execute_def run_def exec_step_def validate_def of_unit_def open_app_def type_input_def)

lemma parse_move_to: "parse ''move to 5000,5000'' = Inr [MoveMouse 5000 5000]"
  by code_simp


lemma open_application_opened:
  assumes "get data ''app_name'' = Inr n" and "truthy n"
    and "app_manager_open_app C n (world s) = (Inr (ok, detail), v)" and "truthy ok"
  shows "open_application C X (Inr data) s
           = (succeeded [(''message'', JStr (opened_message X n))], s\<lparr>world := v, calls := calls s @ [OpenAppNamed n]\<rparr>)"
  using assms by (simp add: open_application_def invoke_eq)
























end
